theory Spec2Isabelle
  imports Complex_Main
begin

section \<open>Ringdown waveforms from a QNM template table (BH\_waveforms.py)\<close>

text \<open>
  The module keeps a table of quasinormal-mode reference entries, keyed by the mode
  \<open>(l, n)\<close>, interpolates it in the spin, adds a quadratic correction in the hair
  fraction \<open>eps\<close> and sums damped cosines over a time grid.

  Modelling decisions, all of them visible in the definitions below:
  \<^item> Python floats are the reals: every arithmetic step is exact, so rounding, infinities
    and NaN are outside the model. The constant \<open>1e-6\<close> is the real \<open>1 / 1000000\<close>.
    Float arithmetic that leaves the float range yields an infinity without raising,
    except the power operator \<open>**\<close>, which raises \<open>OverflowError\<close>; that raise is
    modelled.
  \<^item> The module-level dictionary \<open>qnm_data\<close> is an explicit argument of every function
    that reads it.
  \<^item> An entry, a dictionary with seven fixed keys in the source, is a record. The key
    \<open>'a'\<close> is the field \<open>spin_a\<close>.
  \<^item> Every \<open>raise\<close>, and every operation of Python or numpy that raises (indexing out
    of range, float division by zero, a float power out of range, a zero step of
    \<open>np.arange\<close>), is a value \<open>Inl\<close> of the result.
  \<^item> A numpy array of floats is a list of reals; array arithmetic is elementwise.
\<close>

subsection \<open>Data\<close>

type_synonym mode_key = "int \<times> int"

record entry =
  spin_a :: real
  omega0_R :: real
  omega0_I :: real
  alpha1 :: real
  alpha2 :: real
  beta1 :: real
  beta2 :: real

type_synonym qnm_store = "mode_key \<rightharpoonup> entry list"

datatype error =
    ModeNotFound mode_key
      \<comment> \<open>\<open>ValueError("Mode ... not found in QNM data.")\<close>\<close>
  | SpinOutOfRange real real real mode_key
      \<comment> \<open>\<open>ValueError("Spin value a out of range [min_a, max_a] for mode ...")\<close>:
          the query, the two bounds, the mode\<close>
  | ModeNotAvailable
      \<comment> \<open>\<open>RuntimeError("QNM data not loaded or mode not available.")\<close>\<close>
  | IndexError
  | ZeroDivisionError
  | OverflowError

subsection \<open>Python and numpy primitives\<close>

definition py_index :: "'a list \<Rightarrow> int \<Rightarrow> error + 'a" where
  \<comment> \<open>\<open>xs[i]\<close>: a negative index counts from the end, anything else out of range raises.\<close>
  "py_index xs i =
     (if 0 \<le> i \<and> i < int (length xs) then Inr (xs ! nat i)
      else if i < 0 \<and> - int (length xs) \<le> i then Inr (xs ! nat (int (length xs) + i))
      else Inl IndexError)"

definition py_truediv :: "real \<Rightarrow> real \<Rightarrow> error + real" where
  \<comment> \<open>\<open>x / y\<close> on floats raises on a zero divisor.\<close>
  "py_truediv x y = (if y = 0 then Inl ZeroDivisionError else Inr (x / y))"

definition float_overflow_threshold :: real where
  \<comment> \<open>The largest float is \<open>2^1024 - 2^971\<close>. A result whose magnitude is at least half a
      unit in the last place above it rounds to infinity.\<close>
  "float_overflow_threshold = 2 ^ 1024 - 2 ^ 970"

definition py_pow :: "real \<Rightarrow> nat \<Rightarrow> error + real" where
  \<comment> \<open>\<open>x ** k\<close> on a float \<open>x\<close> and a literal exponent \<open>k \<ge> 0\<close>: raises
      \<open>OverflowError\<close> when the result is too large for a float, and is the power
      otherwise.\<close>
  "py_pow x k =
     (if float_overflow_threshold \<le> \<bar>x ^ k\<bar> then Inl OverflowError else Inr (x ^ k))"

definition np_arange :: "real \<Rightarrow> real \<Rightarrow> real \<Rightarrow> error + real list" where
  \<comment> \<open>\<open>np.arange(start, stop, step)\<close>: \<open>ceil((stop - start) / step)\<close> values (none when
      that is not positive), the \<open>i\<close>-th being \<open>start + i * step\<close>; a zero step raises.
      numpy takes the ceiling of the rounded quotient and rounds each product, so the
      number of points and the last point of the running program can differ from these
      exact ones.\<close>
  "np_arange start stop step =
     (if step = 0 then Inl ZeroDivisionError
      else Inr (map (\<lambda>i. start + real i * step) [0 ..< nat \<lceil>(stop - start) / step\<rceil>]))"

subsection \<open>\<open>load_QNM_templates\<close>\<close>

text \<open>
  The loader reads a CSV file with \<open>csv.DictReader\<close> and converts the cells with
  \<open>float\<close> and \<open>int\<close>. The model starts from the converted rows: reading the file
  and the conversions, which raise on a missing column or an unparsable cell, are not part
  of it. The cells \<open>alpha2\<close> and \<open>beta2\<close> may be empty strings, \<open>None\<close> here, and then
  count as \<open>0.0\<close>. The function clears both module-level dictionaries and fills them
  again, so the result depends on the rows only; the model returns the two dictionaries as
  a pair. \<open>list.sort\<close> is stable, as \<open>sort_key\<close> is.
\<close>

record csv_row =
  row_a :: real
  row_l :: int
  row_n :: int
  row_omega0_R :: real
  row_omega0_I :: real
  row_alpha1 :: real
  row_beta1 :: real
  row_alpha2 :: "real option"
  row_beta2 :: "real option"

definition row_entry :: "csv_row \<Rightarrow> entry" where
  \<comment> \<open>The dictionary appended for a row.\<close>
  "row_entry row =
     \<lparr> spin_a = row_a row,
       omega0_R = row_omega0_R row,
       omega0_I = row_omega0_I row,
       alpha1 = row_alpha1 row,
       alpha2 = (case row_alpha2 row of None \<Rightarrow> 0 | Some x \<Rightarrow> x),
       beta1 = row_beta1 row,
       beta2 = (case row_beta2 row of None \<Rightarrow> 0 | Some x \<Rightarrow> x) \<rparr>"

definition append_row :: "qnm_store \<Rightarrow> csv_row \<Rightarrow> qnm_store" where
  \<comment> \<open>The body of the loop over the rows: create the mode's list if needed, append.\<close>
  "append_row qnm_data row =
     (let mode_key = (row_l row, row_n row);
          entries = (case qnm_data mode_key of None \<Rightarrow> [] | Some es \<Rightarrow> es)
      in qnm_data(mode_key \<mapsto> entries @ [row_entry row]))"

definition load_QNM_templates :: "csv_row list \<Rightarrow> qnm_store \<times> (mode_key \<rightharpoonup> real list)" where
  "load_QNM_templates rows =
     (let grouped = foldl append_row Map.empty rows;
          qnm_data = (\<lambda>mode_key. map_option (sort_key spin_a) (grouped mode_key));
          spins_by_mode = (\<lambda>mode_key. map_option (map spin_a) (qnm_data mode_key))
      in (qnm_data, spins_by_mode))"

subsection \<open>\<open>interpolate_entry\<close>\<close>

fun exact_match :: "entry list \<Rightarrow> real \<Rightarrow> entry option" where
  \<comment> \<open>\<open>for entry in entries: if abs(entry['a'] - a) < 1e-6: return entry\<close>;
      \<open>None\<close> when the loop falls through.\<close>
  "exact_match [] a = None"
| "exact_match (entry # entries) a =
     (if \<bar>spin_a entry - a\<bar> < 1 / 1000000 then Some entry else exact_match entries a)"

fun find_higher :: "entry list \<Rightarrow> real \<Rightarrow> nat \<Rightarrow> error + nat" where
  \<comment> \<open>\<open>while entries[idx_higher]['a'] < a: idx_higher += 1\<close>, on the entries from
      \<open>idx_higher\<close> on; running off the end is the \<open>IndexError\<close> of the subscript.\<close>
  "find_higher [] a idx_higher = Inl IndexError"
| "find_higher (entry # entries) a idx_higher =
     (if spin_a entry < a then find_higher entries a (Suc idx_higher) else Inr idx_higher)"

definition lerp :: "real \<Rightarrow> real \<Rightarrow> real \<Rightarrow> real" where
  \<comment> \<open>The local function \<open>lerp\<close>; the \<open>frac\<close> it closes over is the first
      argument, written \<open>frac'\<close>.\<close>
  "lerp frac' x y = x + frac' * (y - x)"

definition interp_fields :: "real \<Rightarrow> real \<Rightarrow> entry \<Rightarrow> entry \<Rightarrow> entry" where
  \<comment> \<open>The dictionary \<open>interp_entry\<close>: the query spin, and each of the six fields
      interpolated.\<close>
  "interp_fields a frac' e_low e_high =
     \<lparr> spin_a = a,
       omega0_R = lerp frac' (omega0_R e_low) (omega0_R e_high),
       omega0_I = lerp frac' (omega0_I e_low) (omega0_I e_high),
       alpha1 = lerp frac' (alpha1 e_low) (alpha1 e_high),
       alpha2 = lerp frac' (alpha2 e_low) (alpha2 e_high),
       beta1 = lerp frac' (beta1 e_low) (beta1 e_high),
       beta2 = lerp frac' (beta2 e_low) (beta2 e_high) \<rparr>"

definition interpolate_between :: "entry list \<Rightarrow> real \<Rightarrow> error + entry" where
  \<comment> \<open>The last part of \<open>interpolate_entry\<close>, from \<open>idx_higher = 0\<close> on.\<close>
  "interpolate_between entries a =
     (case find_higher entries a 0 of
        Inl err \<Rightarrow> Inl err
      | Inr idx_higher \<Rightarrow>
          (case py_index entries (int idx_higher - 1) of
             Inl err \<Rightarrow> Inl err
           | Inr e_low \<Rightarrow>
               (case py_index entries (int idx_higher) of
                  Inl err \<Rightarrow> Inl err
                | Inr e_high \<Rightarrow>
                    (case py_truediv (a - spin_a e_low) (spin_a e_high - spin_a e_low) of
                       Inl err \<Rightarrow> Inl err
                     | Inr frac' \<Rightarrow> Inr (interp_fields a frac' e_low e_high)))))"

definition interpolate_entry :: "qnm_store \<Rightarrow> mode_key \<Rightarrow> real \<Rightarrow> error + entry" where
  "interpolate_entry qnm_data mode_key a =
     (case qnm_data mode_key of
        None \<Rightarrow> Inl (ModeNotFound mode_key)
      | Some entries \<Rightarrow>
          (case exact_match entries a of
             Some entry \<Rightarrow> Inr entry
           | None \<Rightarrow>
               (case py_index entries 0 of
                  Inl err \<Rightarrow> Inl err
                | Inr e_first \<Rightarrow>
                    (case py_index entries (- 1) of
                       Inl err \<Rightarrow> Inl err
                     | Inr e_last \<Rightarrow>
                         (let min_a = spin_a e_first; max_a = spin_a e_last
                          in if a < min_a \<or> a > max_a
                             then Inl (SpinOutOfRange a min_a max_a mode_key)
                             else interpolate_between entries a)))))"

subsection \<open>\<open>get_frequency\<close>\<close>

definition get_frequency :: "qnm_store \<Rightarrow> real \<Rightarrow> int \<Rightarrow> int \<Rightarrow> real \<Rightarrow> error + complex" where
  \<comment> \<open>\<open>eps ** 2\<close> is evaluated twice, for the real and for the imaginary shift.\<close>
  "get_frequency qnm_data a l n eps =
     (let mode_key = (l, n)
      in if qnm_data mode_key = None then Inl ModeNotAvailable
         else (case interpolate_entry qnm_data mode_key a of
                 Inl err \<Rightarrow> Inl err
               | Inr entry \<Rightarrow>
                   (case py_pow eps 2 of
                      Inl err \<Rightarrow> Inl err
                    | Inr eps_sq_R \<Rightarrow>
                        (let delta_omega_R = alpha1 entry * eps + alpha2 entry * eps_sq_R
                         in case py_pow eps 2 of
                              Inl err \<Rightarrow> Inl err
                            | Inr eps_sq_I \<Rightarrow>
                                (let delta_omega_I = beta1 entry * eps + beta2 entry * eps_sq_I;
                                     omega_R = omega0_R entry + delta_omega_R;
                                     omega_I = omega0_I entry + delta_omega_I
                                 in Inr (Complex omega_R omega_I))))))"

subsection \<open>\<open>generate_waveform\<close>\<close>

definition h_mode :: "complex \<Rightarrow> real list \<Rightarrow> real list" where
  \<comment> \<open>\<open>A_ln * np.exp(omega_I * t) * np.cos(omega_R * t)\<close> with \<open>A_ln = 1.0\<close>.\<close>
  "h_mode omega t =
     (let omega_R = Re omega; omega_I = Im omega; A_ln = 1
      in map (\<lambda>ti. A_ln * exp (omega_I * ti) * cos (omega_R * ti)) t)"

fun modes_loop ::
  "qnm_store \<Rightarrow> real \<Rightarrow> real \<Rightarrow> real list \<Rightarrow> mode_key list \<Rightarrow> real list \<Rightarrow> error + real list"
where
  \<comment> \<open>\<open>for (l, n) in modes: ...; h_total += h_mode\<close>, the accumulator last.\<close>
  "modes_loop qnm_data spin eps t [] h_total = Inr h_total"
| "modes_loop qnm_data spin eps t ((l, n) # modes) h_total =
     (case get_frequency qnm_data spin l n eps of
        Inl err \<Rightarrow> Inl err
      | Inr omega \<Rightarrow>
          modes_loop qnm_data spin eps t modes (map2 (+) h_total (h_mode omega t)))"

definition generate_waveform ::
  "qnm_store \<Rightarrow> real \<Rightarrow> real \<Rightarrow> real \<Rightarrow> mode_key list \<Rightarrow> real \<Rightarrow> real
     \<Rightarrow> error + (real list \<times> real list)"
where
  \<comment> \<open>\<open>mass\<close> is an argument the body never reads.\<close>
  "generate_waveform qnm_data mass spin eps modes duration dt =
     (case np_arange 0 duration dt of
        Inl err \<Rightarrow> Inl err
      | Inr t \<Rightarrow>
          (case modes_loop qnm_data spin eps t modes (replicate (length t) 0) of
             Inl err \<Rightarrow> Inl err
           | Inr h_total \<Rightarrow> Inr (t, h_total)))"

subsection \<open>The two-entry table of the specification's scenarios\<close>

definition entry_spin0 :: entry where
  "entry_spin0 =
     \<lparr> spin_a = 0, omega0_R = 50 / 100, omega0_I = - (10 / 100),
       alpha1 = 2 / 100, alpha2 = 0, beta1 = - (1 / 100), beta2 = 0 \<rparr>"

definition entry_spin1 :: entry where
  "entry_spin1 =
     \<lparr> spin_a = 1, omega0_R = 60 / 100, omega0_I = - (8 / 100),
       alpha1 = 3 / 100, alpha2 = 0, beta1 = - (15 / 1000), beta2 = 0 \<rparr>"

definition table_2_0 :: qnm_store where
  "table_2_0 = [(2, 0) \<mapsto> [entry_spin0, entry_spin1]]"

subsection \<open>Notions the properties are stated with\<close>

text \<open>
  The bounds of a mode are the least and the greatest spin among its entries. The source
  reads them off the first and the last entry, which is the same thing once the entries
  are sorted by spin (lemmas \<open>min_spin_sorted\<close>, \<open>max_spin_sorted\<close>).
\<close>

definition min_spin :: "entry list \<Rightarrow> real" where
  "min_spin entries = Min (spin_a ` set entries)"

definition max_spin :: "entry list \<Rightarrow> real" where
  "max_spin entries = Max (spin_a ` set entries)"

text \<open>A table whose first two spins are closer to each other than the tolerance.\<close>

definition entry_near0 :: entry where
  "entry_near0 =
     \<lparr> spin_a = 1 / 2000000, omega0_R = 51 / 100, omega0_I = - (10 / 100),
       alpha1 = 2 / 100, alpha2 = 0, beta1 = - (1 / 100), beta2 = 0 \<rparr>"

definition table_fine :: qnm_store where
  "table_fine = [(2, 0) \<mapsto> [entry_spin0, entry_near0, entry_spin1]]"

text \<open>A table with a second mode, for runs that superpose two modes.\<close>

definition entry_l3 :: entry where
  "entry_l3 =
     \<lparr> spin_a = 0, omega0_R = 80 / 100, omega0_I = - (20 / 100),
       alpha1 = 4 / 100, alpha2 = 1 / 100, beta1 = - (2 / 100), beta2 = 0 \<rparr>"

definition table_two_modes :: qnm_store where
  "table_two_modes = [(2, 0) \<mapsto> [entry_spin0, entry_spin1], (3, 0) \<mapsto> [entry_l3]]"

section \<open>Properties\<close>

subsection \<open>What the loader guarantees\<close>

text \<open>
  Every list of entries in a loaded table is non-empty and sorted by spin: the two
  conditions on the entries of a mode under which the properties of the interpolation are
  stated below.
\<close>

lemma append_row_nonempty:
  assumes "\<forall>k es. qnm_data k = Some es \<longrightarrow> es \<noteq> []"
  shows "\<forall>k es. append_row qnm_data row k = Some es \<longrightarrow> es \<noteq> []"
  using assms by (auto simp: append_row_def Let_def)

lemma foldl_append_row_nonempty:
  assumes "\<forall>k es. qnm_data k = Some es \<longrightarrow> es \<noteq> []"
  shows "\<forall>k es. foldl append_row qnm_data rows k = Some es \<longrightarrow> es \<noteq> []"
  using assms
proof (induction rows arbitrary: qnm_data)
  case Nil
  then show ?case by simp
next
  case (Cons row rows)
  from append_row_nonempty [OF Cons.prems]
  have "\<forall>k es. append_row qnm_data row k = Some es \<longrightarrow> es \<noteq> []" .
  from Cons.IH [OF this] show ?case by simp
qed

lemma load_QNM_templates_sorted:
  assumes "fst (load_QNM_templates rows) mode_key = Some entries"
  shows "entries \<noteq> [] \<and> sorted (map spin_a entries)"
proof -
  from assms obtain es where es: "foldl append_row Map.empty rows mode_key = Some es"
    and entries: "entries = sort_key spin_a es"
    by (auto simp: load_QNM_templates_def Let_def)
  have "\<forall>k es. foldl append_row Map.empty rows k = Some es \<longrightarrow> es \<noteq> []"
    by (rule foldl_append_row_nonempty) simp
  with es have "es \<noteq> []" by blast
  then have "entries \<noteq> []"
    using entries by (metis length_0_conv length_sort)
  moreover have "sorted (map spin_a entries)"
    using entries by (simp add: sorted_sort_key)
  ultimately show ?thesis ..
qed

lemma load_scenario:
  "fst (load_QNM_templates
     [\<lparr> row_a = 1, row_l = 2, row_n = 0, row_omega0_R = 60 / 100, row_omega0_I = - (8 / 100),
        row_alpha1 = 3 / 100, row_beta1 = - (15 / 1000), row_alpha2 = None, row_beta2 = None \<rparr>,
      \<lparr> row_a = 0, row_l = 2, row_n = 0, row_omega0_R = 50 / 100, row_omega0_I = - (10 / 100),
        row_alpha1 = 2 / 100, row_beta1 = - (1 / 100), row_alpha2 = None, row_beta2 = None \<rparr>])
   = table_2_0"
  by (rule ext)
    (simp add: load_QNM_templates_def append_row_def row_entry_def table_2_0_def
      entry_spin0_def entry_spin1_def)

subsection \<open>The parts of \<open>interpolate_entry\<close>\<close>

lemma exact_match_find:
  "exact_match entries a = List.find (\<lambda>e. \<bar>spin_a e - a\<bar> < 1 / 1000000) entries"
  by (induction entries) auto

lemma exact_match_None:
  "exact_match entries a = None \<longleftrightarrow> (\<forall>e \<in> set entries. 1 / 1000000 \<le> \<bar>spin_a e - a\<bar>)"
  by (induction entries) auto

lemma exact_match_Some:
  "exact_match entries a = Some e \<Longrightarrow> e \<in> set entries \<and> \<bar>spin_a e - a\<bar> < 1 / 1000000"
  by (induction entries) (auto split: if_splits)

lemma exact_match_first:
  assumes "i < length entries"
    and "\<bar>spin_a (entries ! i) - a\<bar> < 1 / 1000000"
    and "\<forall>j<i. 1 / 1000000 \<le> \<bar>spin_a (entries ! j) - a\<bar>"
  shows "exact_match entries a = Some (entries ! i)"
  using assms
proof (induction entries arbitrary: i)
  case Nil
  then show ?case by simp
next
  case (Cons e es)
  show ?case
  proof (cases i)
    case 0
    with Cons.prems show ?thesis by simp
  next
    case (Suc k)
    from Cons.prems(3) Suc have "1 / 1000000 \<le> \<bar>spin_a e - a\<bar>" by auto
    moreover have "exact_match es a = Some (es ! k)"
    proof (rule Cons.IH)
      show "k < length es" using Cons.prems(1) Suc by simp
      show "\<bar>spin_a (es ! k) - a\<bar> < 1 / 1000000" using Cons.prems(2) Suc by simp
      show "\<forall>j<k. 1 / 1000000 \<le> \<bar>spin_a (es ! j) - a\<bar>"
        using Cons.prems(3) Suc by auto
    qed
    ultimately show ?thesis using Suc by simp
  qed
qed

lemma py_index_first: "entries \<noteq> [] \<Longrightarrow> py_index entries 0 = Inr (hd entries)"
  by (simp add: py_index_def hd_conv_nth)

lemma py_index_last: "entries \<noteq> [] \<Longrightarrow> py_index entries (- 1) = Inr (last entries)"
  by (cases entries rule: rev_cases) (simp_all add: py_index_def nth_append)

lemma py_index_nat: "i < length xs \<Longrightarrow> py_index xs (int i) = Inr (xs ! i)"
  by (simp add: py_index_def)

lemma py_index_pred: "0 < i \<Longrightarrow> i < length xs \<Longrightarrow> py_index xs (int i - 1) = Inr (xs ! (i - 1))"
  by (simp add: py_index_def nat_diff_distrib')

lemma find_higher_bracket:
  assumes "\<exists>e \<in> set entries. a \<le> spin_a e"
  shows "\<exists>j < length entries. find_higher entries a k = Inr (k + j)
           \<and> a \<le> spin_a (entries ! j) \<and> (\<forall>i<j. spin_a (entries ! i) < a)"
  using assms
proof (induction entries arbitrary: k)
  case Nil
  then show ?case by simp
next
  case (Cons e es)
  show ?case
  proof (cases "spin_a e < a")
    case False
    then have "find_higher (e # es) a k = Inr (k + 0) \<and> a \<le> spin_a ((e # es) ! 0)"
      by simp
    then show ?thesis by blast
  next
    case True
    with Cons.prems have "\<exists>e' \<in> set es. a \<le> spin_a e'" by auto
    from Cons.IH [OF this, of "Suc k"] obtain j where j: "j < length es"
      "find_higher es a (Suc k) = Inr (Suc k + j)" "a \<le> spin_a (es ! j)"
      "\<forall>i<j. spin_a (es ! i) < a" by blast
    have "\<forall>i<Suc j. spin_a ((e # es) ! i) < a"
      using True j(4) by (auto simp: less_Suc_eq_0_disj)
    with True j show ?thesis
      by (intro exI [of _ "Suc j"]) simp
  qed
qed

lemma interpolate_between_bracket:
  assumes ne: "entries \<noteq> []"
    and lo: "spin_a (hd entries) < a"
    and hi: "a \<le> spin_a (last entries)"
  shows "\<exists>i. Suc i < length entries \<and> spin_a (entries ! i) < a \<and> a \<le> spin_a (entries ! Suc i)
           \<and> interpolate_between entries a =
               Inr (interp_fields a
                      ((a - spin_a (entries ! i)) / (spin_a (entries ! Suc i) - spin_a (entries ! i)))
                      (entries ! i) (entries ! Suc i))"
proof -
  from ne hi have "\<exists>e \<in> set entries. a \<le> spin_a e"
    using last_in_set by blast
  from find_higher_bracket [OF this, of 0] obtain j where j: "j < length entries"
    "find_higher entries a 0 = Inr j" "a \<le> spin_a (entries ! j)"
    "\<forall>i<j. spin_a (entries ! i) < a" by auto
  have "j \<noteq> 0"
  proof
    assume "j = 0"
    with j(3) ne have "a \<le> spin_a (hd entries)" by (simp add: hd_conv_nth)
    with lo show False by simp
  qed
  then obtain i where i: "j = Suc i" by (cases j) auto
  with j(4) have low: "spin_a (entries ! i) < a" by simp
  have idx_low: "py_index entries (int j - 1) = Inr (entries ! i)"
    using py_index_pred [of j entries] j(1) i by simp
  have idx_high: "py_index entries (int j) = Inr (entries ! Suc i)"
    using py_index_nat [OF j(1)] i by simp
  have nz: "spin_a (entries ! Suc i) - spin_a (entries ! i) \<noteq> 0"
    using low j(3) i by simp
  have "interpolate_between entries a =
          Inr (interp_fields a
                 ((a - spin_a (entries ! i)) / (spin_a (entries ! Suc i) - spin_a (entries ! i)))
                 (entries ! i) (entries ! Suc i))"
    unfolding interpolate_between_def
    by (simp only: j(2) idx_low idx_high py_truediv_def nz sum.case if_False)
  with j(1) j(3) i low show ?thesis by blast
qed

lemma sorted_hd_Min:
  fixes xs :: "real list"
  shows "xs \<noteq> [] \<Longrightarrow> sorted xs \<Longrightarrow> hd xs = Min (set xs)"
  by (cases xs) (auto intro!: Min_eqI [symmetric])

lemma sorted_last_Max:
  fixes xs :: "real list"
  shows "xs \<noteq> [] \<Longrightarrow> sorted xs \<Longrightarrow> last xs = Max (set xs)"
  by (cases xs rule: rev_cases) (auto simp: sorted_append intro!: Max_eqI [symmetric])

lemma min_spin_hd:
  "entries \<noteq> [] \<Longrightarrow> sorted (map spin_a entries) \<Longrightarrow>
     Min (spin_a ` set entries) = spin_a (hd entries)"
  using sorted_hd_Min [of "map spin_a entries"] by (simp add: hd_map)

lemma max_spin_last:
  "entries \<noteq> [] \<Longrightarrow> sorted (map spin_a entries) \<Longrightarrow>
     Max (spin_a ` set entries) = spin_a (last entries)"
  using sorted_last_Max [of "map spin_a entries"] by (simp add: last_map)

lemma min_spin_sorted:
  "entries \<noteq> [] \<Longrightarrow> sorted (map spin_a entries) \<Longrightarrow> min_spin entries = spin_a (hd entries)"
  by (simp add: min_spin_def min_spin_hd)

lemma max_spin_sorted:
  "entries \<noteq> [] \<Longrightarrow> sorted (map spin_a entries) \<Longrightarrow> max_spin entries = spin_a (last entries)"
  by (simp add: max_spin_def max_spin_last)

lemma interpolate_entry_exact:
  "qnm_data mode_key = Some entries \<Longrightarrow> exact_match entries a = Some e \<Longrightarrow>
     interpolate_entry qnm_data mode_key a = Inr e"
  by (simp add: interpolate_entry_def)

lemma interpolate_entry_no_match:
  assumes "qnm_data mode_key = Some entries" "entries \<noteq> []" "exact_match entries a = None"
  shows "interpolate_entry qnm_data mode_key a =
           (if a < spin_a (hd entries) \<or> spin_a (last entries) < a
            then Inl (SpinOutOfRange a (spin_a (hd entries)) (spin_a (last entries)) mode_key)
            else interpolate_between entries a)"
  using assms by (simp add: interpolate_entry_def py_index_first py_index_last)

lemma interpolate_entry_in_range:
  assumes look: "qnm_data mode_key = Some entries" and ne: "entries \<noteq> []"
    and lo: "spin_a (hd entries) \<le> a" and hi: "a \<le> spin_a (last entries)"
  shows "\<exists>e. interpolate_entry qnm_data mode_key a = Inr e"
proof (cases "exact_match entries a")
  case (Some e)
  with look show ?thesis by (auto dest: interpolate_entry_exact)
next
  case None
  with ne have "1 / 1000000 \<le> \<bar>spin_a (hd entries) - a\<bar>"
    by (simp add: exact_match_None)
  with lo have "spin_a (hd entries) < a" by auto
  from interpolate_between_bracket [OF ne this hi]
  obtain e where "interpolate_between entries a = Inr e" by blast
  with interpolate_entry_no_match [of qnm_data mode_key entries a, OF look ne None] lo hi
  show ?thesis by auto
qed

subsection \<open>The parts of \<open>get_frequency\<close>\<close>

lemma float_overflow_threshold_gt_one: "1 < float_overflow_threshold"
  by (simp add: float_overflow_threshold_def)

lemma py_pow_in_range: "\<bar>x ^ k\<bar> < float_overflow_threshold \<Longrightarrow> py_pow x k = Inr (x ^ k)"
  by (simp add: py_pow_def)

lemma py_pow_overflow: "float_overflow_threshold \<le> \<bar>x ^ k\<bar> \<Longrightarrow> py_pow x k = Inl OverflowError"
  by (simp add: py_pow_def)

lemma py_pow_zero: "py_pow 0 2 = Inr 0"
  using float_overflow_threshold_gt_one by (simp add: py_pow_def)

lemma py_pow_tenth: "py_pow (1 / 10) 2 = Inr (1 / 100)"
  using float_overflow_threshold_gt_one by (simp add: py_pow_def power2_eq_square)

lemma get_frequency_found:
  assumes "qnm_data (l, n) = Some entries"
    and "interpolate_entry qnm_data (l, n) a = Inr entry"
  shows "get_frequency qnm_data a l n eps =
           (if float_overflow_threshold \<le> eps ^ 2 then Inl OverflowError
            else Inr (Complex (omega0_R entry + (alpha1 entry * eps + alpha2 entry * eps ^ 2))
                              (omega0_I entry + (beta1 entry * eps + beta2 entry * eps ^ 2))))"
  using assms by (simp add: get_frequency_def py_pow_def)

subsection \<open>The parts of \<open>generate_waveform\<close>\<close>

lemma length_h_mode: "length (h_mode omega t) = length t"
  by (simp add: h_mode_def)


lemma map2_add_zeros:
  fixes xs :: "real list"
  shows "length xs = k \<Longrightarrow> map2 (+) (replicate k 0) xs = xs"
  by (induction xs arbitrary: k) auto

lemma np_arange_ok:
  "dt \<noteq> 0 \<Longrightarrow>
     np_arange 0 duration dt = Inr (map (\<lambda>i. real i * dt) [0 ..< nat \<lceil>duration / dt\<rceil>])"
  by (simp add: np_arange_def)


lemma modes_loop_all_found:
  assumes "\<forall>m \<in> set modes. \<exists>omega. get_frequency qnm_data spin (fst m) (snd m) eps = Inr omega"
  shows "\<exists>h. modes_loop qnm_data spin eps t modes h0 = Inr h"
  using assms
proof (induction modes arbitrary: h0)
  case Nil
  then show ?case by simp
next
  case (Cons m modes)
  obtain l n where m: "m = (l, n)" by (cases m)
  from Cons.prems m obtain omega where "get_frequency qnm_data spin l n eps = Inr omega"
    by auto
  moreover from Cons.prems
  have "\<exists>h. modes_loop qnm_data spin eps t modes (map2 (+) h0 (h_mode omega t)) = Inr h"
    by (intro Cons.IH) simp
  ultimately show ?case using m by simp
qed

lemma modes_loop_first_failure:
  assumes "k < length modes"
    and "get_frequency qnm_data spin (fst (modes ! k)) (snd (modes ! k)) eps = Inl err"
    and "\<forall>j < k. \<exists>omega. get_frequency qnm_data spin (fst (modes ! j)) (snd (modes ! j)) eps = Inr omega"
  shows "modes_loop qnm_data spin eps t modes h0 = Inl err"
  using assms
proof (induction modes arbitrary: k h0)
  case Nil
  then show ?case by simp
next
  case (Cons m modes)
  obtain l n where m: "m = (l, n)" by (cases m)
  show ?case
  proof (cases k)
    case 0
    with Cons.prems(2) m show ?thesis by simp
  next
    case (Suc k')
    from Cons.prems(3) Suc m obtain omega where
      omega: "get_frequency qnm_data spin l n eps = Inr omega"
      by fastforce
    have "modes_loop qnm_data spin eps t modes (map2 (+) h0 (h_mode omega t)) = Inl err"
    proof (rule Cons.IH [of k'])
      show "k' < length modes" using Cons.prems(1) Suc by simp
      show "get_frequency qnm_data spin (fst (modes ! k')) (snd (modes ! k')) eps = Inl err"
        using Cons.prems(2) Suc by simp
      show "\<forall>j < k'. \<exists>omega. get_frequency qnm_data spin (fst (modes ! j)) (snd (modes ! j)) eps = Inr omega"
        using Cons.prems(3) Suc by auto
    qed
    with omega m show ?thesis by simp
  qed
qed

lemma modes_loop_Inr_found:
  "modes_loop qnm_data spin eps t modes h0 = Inr h \<Longrightarrow>
     \<forall>m \<in> set modes. \<exists>omega. get_frequency qnm_data spin (fst m) (snd m) eps = Inr omega"
proof (induction modes arbitrary: h0)
  case Nil
  then show ?case by simp
next
  case (Cons m modes)
  obtain l n where m: "m = (l, n)" by (cases m)
  from Cons.prems m obtain omega where
    "get_frequency qnm_data spin l n eps = Inr omega"
    "modes_loop qnm_data spin eps t modes (map2 (+) h0 (h_mode omega t)) = Inr h"
    by (auto split: sum.splits)
  with Cons.IH m show ?case by auto
qed

lemma modes_loop_some_failure:
  assumes "\<exists>m \<in> set modes. \<exists>err. get_frequency qnm_data spin (fst m) (snd m) eps = Inl err"
  shows "\<exists>err. modes_loop qnm_data spin eps t modes h0 = Inl err"
proof (cases "modes_loop qnm_data spin eps t modes h0")
  case (Inl err)
  then show ?thesis by blast
next
  case (Inr h)
  from modes_loop_Inr_found [OF this] assms show ?thesis by auto
qed

lemma generate_waveform_Inr:
  "generate_waveform qnm_data mass spin eps modes duration dt = Inr (t, h) \<longleftrightarrow>
     np_arange 0 duration dt = Inr t
     \<and> modes_loop qnm_data spin eps t modes (replicate (length t) 0) = Inr h"
  by (auto simp: generate_waveform_def split: sum.splits)

lemma generate_waveform_single:
  "generate_waveform qnm_data mass spin eps [(l, n)] duration dt = Inr (t, h) \<longleftrightarrow>
     np_arange 0 duration dt = Inr t
     \<and> (\<exists>omega. get_frequency qnm_data spin l n eps = Inr omega \<and> h = h_mode omega t)"
  by (auto simp: generate_waveform_Inr map2_add_zeros length_h_mode split: sum.splits)

lemma generate_waveform_grid_ok:
  assumes "dt \<noteq> 0"
  shows "generate_waveform qnm_data mass spin eps modes duration dt =
           (case modes_loop qnm_data spin eps (map (\<lambda>i. real i * dt) [0 ..< nat \<lceil>duration / dt\<rceil>])
                   modes (replicate (nat \<lceil>duration / dt\<rceil>) 0) of
              Inl err \<Rightarrow> Inl err
            | Inr h \<Rightarrow> Inr (map (\<lambda>i. real i * dt) [0 ..< nat \<lceil>duration / dt\<rceil>], h))"
  using assms by (simp add: generate_waveform_def np_arange_ok)

text \<open>Concrete runs on the table with two modes, shared by the instances below.\<close>

lemma np_arange_two_points: "np_arange 0 2 1 = Inr [0, 1]"
  by (simp add: np_arange_def upt_rec)

lemma frequency_2_0_at_rest: "get_frequency table_two_modes 0 2 0 0 = Inr (Complex (1 / 2) (- (1 / 10)))"
  by (simp add: get_frequency_def py_pow_zero interpolate_entry_def table_two_modes_def entry_spin0_def)

lemma frequency_3_0_at_rest: "get_frequency table_two_modes 0 3 0 0 = Inr (Complex (4 / 5) (- (1 / 5)))"
  by (simp add: get_frequency_def py_pow_zero interpolate_entry_def table_two_modes_def entry_l3_def)

lemma run_two_modes:
  "generate_waveform table_two_modes 1 0 0 [(2, 0), (3, 0)] 2 1 =
     Inr ([0, 1], [2, exp (- (1 / 10)) * cos (1 / 2) + exp (- (1 / 5)) * cos (4 / 5)])"
  by (simp add: generate_waveform_def np_arange_two_points frequency_2_0_at_rest frequency_3_0_at_rest h_mode_def)

subsection \<open>The properties of the specification\<close>

text \<open>
  The range check comes after the search for a stored spin within \<open>1e-6\<close> of the
  query. On the two-entry table the query \<open>1.0000005\<close> lies above the greatest stored
  spin, and the call returns the entry stored at spin 1.
\<close>

theorem interpolate_entry_tolerance_beyond_max:
  "table_2_0 (2, 0) = Some [entry_spin0, entry_spin1]
   \<and> max_spin [entry_spin0, entry_spin1] < 1 + 1 / 2000000
   \<and> interpolate_entry table_2_0 (2, 0) (1 + 1 / 2000000) = Inr entry_spin1"
  by (simp add: interpolate_entry_def table_2_0_def max_spin_def entry_spin0_def entry_spin1_def)

text \<open>
  C1 (amended). For a mode of the store whose entry list is non-empty and sorted by spin:
  a query spin strictly outside \<open>[min_spin, max_spin]\<close> that is not within \<open>1e-6\<close> of
  a stored spin fails with the out-of-range error, which carries the query, the two bounds
  and the mode (no clamping, no extrapolation); a query exactly at the least or the greatest
  stored spin succeeds and returns a stored entry; a query \<open>1e-6\<close> or more below the
  least or above the greatest stored spin fails with the out-of-range error. On the
  two-entry table, \<open>get_frequency(1.5, 2, 0, 0.0)\<close> fails with the bounds \<open>[0, 1]\<close>.
\<close>

theorem interpolate_entry_out_of_range:
  assumes "qnm_data mode_key = Some entries" and "entries \<noteq> []"
    and "sorted (map spin_a entries)"
  shows "((a < min_spin entries \<or> max_spin entries < a)
            \<and> (\<forall>e \<in> set entries. 1 / 1000000 \<le> \<bar>spin_a e - a\<bar>)
          \<longrightarrow> interpolate_entry qnm_data mode_key a =
                Inl (SpinOutOfRange a (min_spin entries) (max_spin entries) mode_key))
       \<and> (a = min_spin entries \<or> a = max_spin entries
          \<longrightarrow> (\<exists>e \<in> set entries. interpolate_entry qnm_data mode_key a = Inr e))
       \<and> (a \<le> min_spin entries - 1 / 1000000 \<or> max_spin entries + 1 / 1000000 \<le> a
          \<longrightarrow> interpolate_entry qnm_data mode_key a =
                Inl (SpinOutOfRange a (min_spin entries) (max_spin entries) mode_key))
       \<and> get_frequency table_2_0 (3 / 2) 2 0 0 = Inl (SpinOutOfRange (3 / 2) 0 1 (2, 0))"
proof -
  note mn = min_spin_sorted [OF assms(2,3)] and mx = max_spin_sorted [OF assms(2,3)]
  have bounds: "\<forall>e \<in> set entries. min_spin entries \<le> spin_a e \<and> spin_a e \<le> max_spin entries"
    by (simp add: min_spin_def max_spin_def)
  have far: "interpolate_entry qnm_data mode_key a =
               Inl (SpinOutOfRange a (min_spin entries) (max_spin entries) mode_key)"
    if out: "a < min_spin entries \<or> max_spin entries < a"
      and apart: "\<forall>e \<in> set entries. 1 / 1000000 \<le> \<bar>spin_a e - a\<bar>" for a
  proof -
    from apart have "exact_match entries a = None" by (simp add: exact_match_None)
    from interpolate_entry_no_match [of qnm_data mode_key entries a, OF assms(1,2) this] out
    show ?thesis
      by (simp add: mn mx)
  qed
  have edge: "\<exists>e \<in> set entries. interpolate_entry qnm_data mode_key a = Inr e"
    if "a = min_spin entries \<or> a = max_spin entries"
  proof -
    from that assms(2) have "\<exists>e \<in> set entries. \<bar>spin_a e - a\<bar> < 1 / 1000000"
      unfolding mn mx by (metis abs_zero diff_self hd_in_set last_in_set zero_less_divide_1_iff zero_less_numeral)
    then obtain e where "exact_match entries a = Some e"
      using exact_match_None [of entries a] by fastforce
    with assms(1) exact_match_Some [OF this] show ?thesis
      by (auto dest: interpolate_entry_exact)
  qed
  have beyond: "interpolate_entry qnm_data mode_key a =
                  Inl (SpinOutOfRange a (min_spin entries) (max_spin entries) mode_key)"
    if "a \<le> min_spin entries - 1 / 1000000 \<or> max_spin entries + 1 / 1000000 \<le> a"
  proof (rule far)
    from that show "a < min_spin entries \<or> max_spin entries < a" by auto
    from that bounds show "\<forall>e \<in> set entries. 1 / 1000000 \<le> \<bar>spin_a e - a\<bar>"
      by fastforce
  qed
  have scenario: "get_frequency table_2_0 (3 / 2) 2 0 0 = Inl (SpinOutOfRange (3 / 2) 0 1 (2, 0))"
    by (simp add: get_frequency_def py_pow_zero interpolate_entry_def table_2_0_def entry_spin0_def
        entry_spin1_def py_index_def)
  from far edge beyond scenario show ?thesis by blast
qed

theorem interpolate_entry_out_of_range_witness:
  "interpolate_entry table_2_0 (2, 0) 2 = Inl (SpinOutOfRange 2 0 1 (2, 0))
   \<and> (\<exists>e \<in> set [entry_spin0, entry_spin1]. interpolate_entry table_2_0 (2, 0) 1 = Inr e)"
  using interpolate_entry_out_of_range [of table_2_0 "(2, 0)" "[entry_spin0, entry_spin1]" 2]
    interpolate_entry_out_of_range [of table_2_0 "(2, 0)" "[entry_spin0, entry_spin1]" 1]
  by (simp add: table_2_0_def min_spin_def max_spin_def entry_spin0_def entry_spin1_def)

text \<open>
  C2. For a mode whose entries are sorted by spin and a query spin strictly inside the
  mode's range that is not within \<open>1e-6\<close> of a stored spin, \<open>interpolate_entry\<close> succeeds:
  there are consecutive entries \<open>lower\<close>, \<open>upper\<close> with \<open>lower.spin \<le> spin \<le> upper.spin\<close>
  (and \<open>lower.spin < upper.spin\<close>, so the fraction is defined), each of the six numeric
  fields of the result is \<open>lower.value + frac * (upper.value - lower.value)\<close> with
  \<open>frac = (spin - lower.spin) / (upper.spin - lower.spin)\<close>, and the spin field of the result
  is the query spin. On the two-entry table, \<open>get_frequency(0.5, 2, 0, 0.0)\<close> returns
  \<open>0.55 - 0.09i\<close>.
\<close>

theorem interpolate_entry_linear:
  assumes "qnm_data mode_key = Some entries" and "entries \<noteq> []"
    and "sorted (map spin_a entries)"
    and "min_spin entries < a" and "a < max_spin entries"
    and "\<forall>e \<in> set entries. 1 / 1000000 \<le> \<bar>spin_a e - a\<bar>"
  shows "(\<exists>i lower upper fr.
            Suc i < length entries \<and> lower = entries ! i \<and> upper = entries ! Suc i
          \<and> spin_a lower \<le> a \<and> a \<le> spin_a upper \<and> spin_a lower < spin_a upper
          \<and> fr = (a - spin_a lower) / (spin_a upper - spin_a lower)
          \<and> interpolate_entry qnm_data mode_key a =
                Inr \<lparr> spin_a = a,
                      omega0_R = omega0_R lower + fr * (omega0_R upper - omega0_R lower),
                      omega0_I = omega0_I lower + fr * (omega0_I upper - omega0_I lower),
                      alpha1 = alpha1 lower + fr * (alpha1 upper - alpha1 lower),
                      alpha2 = alpha2 lower + fr * (alpha2 upper - alpha2 lower),
                      beta1 = beta1 lower + fr * (beta1 upper - beta1 lower),
                      beta2 = beta2 lower + fr * (beta2 upper - beta2 lower) \<rparr>)
       \<and> get_frequency table_2_0 (1 / 2) 2 0 0 = Inr (Complex (55 / 100) (- (9 / 100)))"
proof -
  have lo: "spin_a (hd entries) < a" and hi: "a \<le> spin_a (last entries)"
    using assms(4,5) min_spin_sorted [OF assms(2,3)] max_spin_sorted [OF assms(2,3)] by simp_all
  from assms(6) have none: "exact_match entries a = None"
    by (simp add: exact_match_None)
  have between: "interpolate_entry qnm_data mode_key a = interpolate_between entries a"
    using interpolate_entry_no_match [of qnm_data mode_key entries a, OF assms(1,2) none] lo hi
    by simp
  from interpolate_between_bracket [OF assms(2) lo hi] obtain i where i:
    "Suc i < length entries" "spin_a (entries ! i) < a" "a \<le> spin_a (entries ! Suc i)"
    "interpolate_between entries a =
       Inr (interp_fields a
              ((a - spin_a (entries ! i)) / (spin_a (entries ! Suc i) - spin_a (entries ! i)))
              (entries ! i) (entries ! Suc i))"
    by blast
  have general: "\<exists>i lower upper fr.
            Suc i < length entries \<and> lower = entries ! i \<and> upper = entries ! Suc i
          \<and> spin_a lower \<le> a \<and> a \<le> spin_a upper \<and> spin_a lower < spin_a upper
          \<and> fr = (a - spin_a lower) / (spin_a upper - spin_a lower)
          \<and> interpolate_entry qnm_data mode_key a =
                Inr \<lparr> spin_a = a,
                      omega0_R = omega0_R lower + fr * (omega0_R upper - omega0_R lower),
                      omega0_I = omega0_I lower + fr * (omega0_I upper - omega0_I lower),
                      alpha1 = alpha1 lower + fr * (alpha1 upper - alpha1 lower),
                      alpha2 = alpha2 lower + fr * (alpha2 upper - alpha2 lower),
                      beta1 = beta1 lower + fr * (beta1 upper - beta1 lower),
                      beta2 = beta2 lower + fr * (beta2 upper - beta2 lower) \<rparr>"
    using i between
    by (intro exI [of _ i] exI [of _ "entries ! i"] exI [of _ "entries ! Suc i"]
        exI [of _ "(a - spin_a (entries ! i)) / (spin_a (entries ! Suc i) - spin_a (entries ! i))"])
      (simp add: interp_fields_def lerp_def)
  have scenario: "get_frequency table_2_0 (1 / 2) 2 0 0 = Inr (Complex (55 / 100) (- (9 / 100)))"
    by (simp add: get_frequency_def py_pow_zero interpolate_entry_def table_2_0_def entry_spin0_def
        entry_spin1_def py_index_def interpolate_between_def py_truediv_def interp_fields_def
        lerp_def)
  from general scenario show ?thesis by (rule conjI)
qed

theorem interpolate_entry_linear_witness:
  "interpolate_entry table_2_0 (2, 0) (1 / 4) =
     Inr \<lparr> spin_a = 1 / 4, omega0_R = 525 / 1000, omega0_I = - (95 / 1000),
           alpha1 = 225 / 10000, alpha2 = 0, beta1 = - (1125 / 100000), beta2 = 0 \<rparr>"
proof -
  have look: "table_2_0 (2, 0) = Some [entry_spin0, entry_spin1]"
    by (simp add: table_2_0_def)
  have ne: "[entry_spin0, entry_spin1] \<noteq> []"
    by simp
  have srt: "sorted (map spin_a [entry_spin0, entry_spin1])"
    by (simp add: entry_spin0_def entry_spin1_def)
  have lo: "min_spin [entry_spin0, entry_spin1] < 1 / 4"
    by (simp add: min_spin_def entry_spin0_def entry_spin1_def)
  have hi: "1 / 4 < max_spin [entry_spin0, entry_spin1]"
    by (simp add: max_spin_def entry_spin0_def entry_spin1_def)
  have far: "\<forall>e \<in> set [entry_spin0, entry_spin1]. 1 / 1000000 \<le> \<bar>spin_a e - 1 / 4\<bar>"
    by (simp add: entry_spin0_def entry_spin1_def)
  from interpolate_entry_linear [of table_2_0 "(2, 0)" "[entry_spin0, entry_spin1]" "1 / 4", OF look ne srt lo hi far]
  show ?thesis
    by (simp add: entry_spin0_def entry_spin1_def)
qed

text \<open>
  \<open>eps ** 2\<close> raises when the square is too large for a float. On the two-entry
  table, at the spin \<open>0.5\<close> inside the range, the hair fraction \<open>2^512\<close> (about
  \<open>1.34e154\<close>) makes \<open>get_frequency\<close> fail with \<open>OverflowError\<close>.
\<close>

theorem get_frequency_overflow:
  "table_2_0 (2, 0) = Some [entry_spin0, entry_spin1]
   \<and> min_spin [entry_spin0, entry_spin1] \<le> 1 / 2 \<and> 1 / 2 \<le> max_spin [entry_spin0, entry_spin1]
   \<and> get_frequency table_2_0 (1 / 2) 2 0 (2 ^ 512) = Inl OverflowError"
proof -
  have look: "table_2_0 (2, 0) = Some [entry_spin0, entry_spin1]"
    by (simp add: table_2_0_def)
  have range: "min_spin [entry_spin0, entry_spin1] \<le> 1 / 2 \<and> 1 / 2 \<le> max_spin [entry_spin0, entry_spin1]"
    by (simp add: min_spin_def max_spin_def entry_spin0_def entry_spin1_def)
  have interp: "interpolate_entry table_2_0 (2, 0) (1 / 2) =
      Inr \<lparr> spin_a = 1 / 2, omega0_R = 55 / 100, omega0_I = - (9 / 100),
            alpha1 = 25 / 1000, alpha2 = 0, beta1 = - (125 / 10000), beta2 = 0 \<rparr>"
    by (simp add: interpolate_entry_def table_2_0_def entry_spin0_def entry_spin1_def
        py_index_def interpolate_between_def py_truediv_def interp_fields_def lerp_def)
  have "((2 :: real) ^ 512) ^ 2 = 2 ^ 1024"
    by (simp add: power_mult [symmetric])
  then have big: "float_overflow_threshold \<le> ((2 :: real) ^ 512) ^ 2"
    by (simp add: float_overflow_threshold_def)
  have "get_frequency table_2_0 (1 / 2) 2 0 (2 ^ 512) = Inl OverflowError"
    using get_frequency_found [of table_2_0 2 0 _ "1 / 2", OF look interp, of "2 ^ 512"] big
    by (simp only: if_True)
  with look range show ?thesis by (intro conjI) (elim conjE, assumption)+
qed

text \<open>
  C3 (amended). For a mode of the store (entries non-empty and sorted) and a spin within
  the mode's range, \<open>interpolate_entry\<close> returns a reference entry, stored or
  interpolated, and for every \<open>eps\<close> whose square is below the float overflow threshold
  (for a float \<open>eps\<close>: \<open>|eps| < 2^512\<close>, about \<open>1.34e154\<close>) \<open>get_frequency\<close> returns
  \<open>complex(omega0_R + alpha1*eps + alpha2*eps^2, omega0_I + beta1*eps + beta2*eps^2)\<close> computed
  from that entry. For a larger \<open>eps\<close> it raises \<open>OverflowError\<close>. At \<open>eps = 0\<close> it
  returns the reference frequency \<open>complex(omega0_R, omega0_I)\<close> itself.
\<close>

theorem get_frequency_formula:
  assumes "qnm_data (l, n) = Some entries" and "entries \<noteq> []"
    and "sorted (map spin_a entries)"
    and "min_spin entries \<le> a" and "a \<le> max_spin entries"
  shows "\<exists>entry. interpolate_entry qnm_data (l, n) a = Inr entry
           \<and> (eps ^ 2 < float_overflow_threshold
                \<longrightarrow> get_frequency qnm_data a l n eps =
                      Inr (Complex (omega0_R entry + (alpha1 entry * eps + alpha2 entry * eps ^ 2))
                                   (omega0_I entry + (beta1 entry * eps + beta2 entry * eps ^ 2))))
           \<and> (float_overflow_threshold \<le> eps ^ 2
                \<longrightarrow> get_frequency qnm_data a l n eps = Inl OverflowError)
           \<and> get_frequency qnm_data a l n 0 = Inr (Complex (omega0_R entry) (omega0_I entry))"
proof -
  have "spin_a (hd entries) \<le> a" and "a \<le> spin_a (last entries)"
    using assms(4,5) min_spin_sorted [OF assms(2,3)] max_spin_sorted [OF assms(2,3)] by simp_all
  from interpolate_entry_in_range [of qnm_data "(l, n)" entries a, OF assms(1,2) this]
  obtain entry where entry: "interpolate_entry qnm_data (l, n) a = Inr entry" by blast
  note freq = get_frequency_found [of qnm_data l n entries a entry, OF assms(1) entry]
  have small: "get_frequency qnm_data a l n eps =
      Inr (Complex (omega0_R entry + (alpha1 entry * eps + alpha2 entry * eps ^ 2))
                   (omega0_I entry + (beta1 entry * eps + beta2 entry * eps ^ 2)))"
    if "eps ^ 2 < float_overflow_threshold"
    using that freq [of eps] by simp
  have large: "get_frequency qnm_data a l n eps = Inl OverflowError"
    if "float_overflow_threshold \<le> eps ^ 2"
    using that freq [of eps] by simp
  have zero: "get_frequency qnm_data a l n 0 = Inr (Complex (omega0_R entry) (omega0_I entry))"
    using freq [of 0] float_overflow_threshold_gt_one by simp
  from entry small large zero show ?thesis by blast
qed

theorem get_frequency_formula_witness:
  "get_frequency table_2_0 (1 / 2) 2 0 (1 / 10) = Inr (Complex (5525 / 10000) (- (9125 / 100000)))
   \<and> get_frequency table_2_0 (1 / 2) 2 0 (2 ^ 512) = Inl OverflowError
   \<and> get_frequency table_2_0 (1 / 2) 2 0 0 = Inr (Complex (55 / 100) (- (9 / 100)))"
proof -
  have look: "table_2_0 (2, 0) = Some [entry_spin0, entry_spin1]"
    by (simp add: table_2_0_def)
  have ne: "[entry_spin0, entry_spin1] \<noteq> []"
    by simp
  have srt: "sorted (map spin_a [entry_spin0, entry_spin1])"
    by (simp add: entry_spin0_def entry_spin1_def)
  have lo: "min_spin [entry_spin0, entry_spin1] \<le> 1 / 2"
    by (simp add: min_spin_def entry_spin0_def entry_spin1_def)
  have hi: "1 / 2 \<le> max_spin [entry_spin0, entry_spin1]"
    by (simp add: max_spin_def entry_spin0_def entry_spin1_def)
  have interp: "interpolate_entry table_2_0 (2, 0) (1 / 2) =
      Inr \<lparr> spin_a = 1 / 2, omega0_R = 55 / 100, omega0_I = - (9 / 100),
            alpha1 = 25 / 1000, alpha2 = 0, beta1 = - (125 / 10000), beta2 = 0 \<rparr>"
    by (simp add: interpolate_entry_def table_2_0_def entry_spin0_def entry_spin1_def
        py_index_def interpolate_between_def py_truediv_def interp_fields_def lerp_def)
  have small: "(1 / 10 :: real) ^ 2 < float_overflow_threshold"
    using float_overflow_threshold_gt_one by (simp add: power2_eq_square)
  have "((2 :: real) ^ 512) ^ 2 = 2 ^ 1024"
    by (simp add: power_mult [symmetric])
  then have big: "float_overflow_threshold \<le> ((2 :: real) ^ 512) ^ 2"
    by (simp add: float_overflow_threshold_def)
  from get_frequency_formula [of table_2_0 2 0 "[entry_spin0, entry_spin1]" "1 / 2" "1 / 10",
      OF look ne srt lo hi] small
  have first: "get_frequency table_2_0 (1 / 2) 2 0 (1 / 10)
                 = Inr (Complex (5525 / 10000) (- (9125 / 100000)))
               \<and> get_frequency table_2_0 (1 / 2) 2 0 0 = Inr (Complex (55 / 100) (- (9 / 100)))"
    by (simp add: interp power2_eq_square)
  from get_frequency_formula [of table_2_0 2 0 "[entry_spin0, entry_spin1]" "1 / 2" "2 ^ 512",
      OF look ne srt lo hi] big
  have second: "get_frequency table_2_0 (1 / 2) 2 0 (2 ^ 512) = Inl OverflowError"
    by blast
  from first second show ?thesis by simp
qed

text \<open>
  The exact-match loop returns the first entry within \<open>1e-6\<close> of the query. In a table
  with spins \<open>0\<close> and \<open>0.0000005\<close>, querying the second stored spin returns the entry
  stored at spin \<open>0\<close>, whose \<open>omega0_R\<close> differs by \<open>0.01\<close>.
\<close>

theorem interpolate_entry_returns_earlier_entry:
  "table_fine (2, 0) = Some [entry_spin0, entry_near0, entry_spin1]
   \<and> interpolate_entry table_fine (2, 0) (spin_a entry_near0) = Inr entry_spin0
   \<and> 1 / 1000000000 < \<bar>omega0_R entry_spin0 - omega0_R entry_near0\<bar>"
  by (simp add: interpolate_entry_def table_fine_def entry_spin0_def entry_near0_def)

text \<open>
  C4 (amended). For a mode of the store and an entry stored for it with spin \<open>s\<close>, if no
  entry before it in the mode's list has a spin within \<open>1e-6\<close> of \<open>s\<close>, then
  \<open>interpolate_entry\<close> at \<open>s\<close> returns that entry itself, every field as stored. For any
  query, if some stored spin is within \<open>1e-6\<close> of it, no interpolation happens: the result
  is the first entry of the list whose spin is within \<open>1e-6\<close> of the query.
\<close>

theorem interpolate_entry_exact_match:
  assumes "qnm_data mode_key = Some entries"
  shows "(i < length entries
            \<and> (\<forall>j < i. 1 / 1000000 \<le> \<bar>spin_a (entries ! j) - spin_a (entries ! i)\<bar>)
          \<longrightarrow> interpolate_entry qnm_data mode_key (spin_a (entries ! i)) = Inr (entries ! i))
       \<and> ((\<exists>e \<in> set entries. \<bar>spin_a e - a\<bar> < 1 / 1000000)
          \<longrightarrow> (\<exists>k < length entries.
                 \<bar>spin_a (entries ! k) - a\<bar> < 1 / 1000000
               \<and> (\<forall>j < k. 1 / 1000000 \<le> \<bar>spin_a (entries ! j) - a\<bar>)
               \<and> interpolate_entry qnm_data mode_key a = Inr (entries ! k)))"
proof (intro conjI impI)
  assume "i < length entries
            \<and> (\<forall>j < i. 1 / 1000000 \<le> \<bar>spin_a (entries ! j) - spin_a (entries ! i)\<bar>)"
  then have "exact_match entries (spin_a (entries ! i)) = Some (entries ! i)"
    by (intro exact_match_first) simp_all
  with assms show "interpolate_entry qnm_data mode_key (spin_a (entries ! i)) = Inr (entries ! i)"
    by (auto dest: interpolate_entry_exact)
next
  assume "\<exists>e \<in> set entries. \<bar>spin_a e - a\<bar> < 1 / 1000000"
  then have "\<exists>k. k < length entries \<and> \<bar>spin_a (entries ! k) - a\<bar> < 1 / 1000000"
    by (metis in_set_conv_nth)
  then obtain k where k: "k < length entries \<and> \<bar>spin_a (entries ! k) - a\<bar> < 1 / 1000000"
    and least: "\<forall>j < k. \<not> (j < length entries \<and> \<bar>spin_a (entries ! j) - a\<bar> < 1 / 1000000)"
    unfolding exists_least_iff [of "\<lambda>k. k < length entries \<and> \<bar>spin_a (entries ! k) - a\<bar> < 1 / 1000000"]
    by blast
  from k least have far: "\<forall>j < k. 1 / 1000000 \<le> \<bar>spin_a (entries ! j) - a\<bar>"
    by (metis not_less order_less_trans)
  with k have "exact_match entries a = Some (entries ! k)"
    by (intro exact_match_first) simp_all
  with assms have "interpolate_entry qnm_data mode_key a = Inr (entries ! k)"
    by (auto dest: interpolate_entry_exact)
  with k far show "\<exists>k < length entries.
                 \<bar>spin_a (entries ! k) - a\<bar> < 1 / 1000000
               \<and> (\<forall>j < k. 1 / 1000000 \<le> \<bar>spin_a (entries ! j) - a\<bar>)
               \<and> interpolate_entry qnm_data mode_key a = Inr (entries ! k)"
    by blast
qed

theorem interpolate_entry_exact_match_witness:
  "interpolate_entry table_2_0 (2, 0) (spin_a ([entry_spin0, entry_spin1] ! 1))
     = Inr ([entry_spin0, entry_spin1] ! 1)
   \<and> (\<exists>k < length [entry_spin0, entry_near0, entry_spin1].
         interpolate_entry table_fine (2, 0) (1 / 4000000)
           = Inr ([entry_spin0, entry_near0, entry_spin1] ! k))"
proof -
  have look: "table_2_0 (2, 0) = Some [entry_spin0, entry_spin1]"
    by (simp add: table_2_0_def)
  have stored: "1 < length [entry_spin0, entry_spin1]
      \<and> (\<forall>j < 1. 1 / 1000000 \<le> \<bar>spin_a ([entry_spin0, entry_spin1] ! j)
                                      - spin_a ([entry_spin0, entry_spin1] ! 1)\<bar>)"
    by (simp add: entry_spin0_def entry_spin1_def)
  have look': "table_fine (2, 0) = Some [entry_spin0, entry_near0, entry_spin1]"
    by (simp add: table_fine_def)
  have near: "\<exists>e \<in> set [entry_spin0, entry_near0, entry_spin1]. \<bar>spin_a e - 1 / 4000000\<bar> < 1 / 1000000"
    by (simp add: entry_spin0_def)
  from interpolate_entry_exact_match [of table_2_0 "(2, 0)" "[entry_spin0, entry_spin1]" 1 0, OF look] stored
    interpolate_entry_exact_match [of table_fine "(2, 0)" "[entry_spin0, entry_near0, entry_spin1]" 0 "1 / 4000000", OF look']
    near
  show ?thesis by blast
qed

text \<open>
  C5. Whenever \<open>generate_waveform\<close> with \<open>modes = [A, B]\<close> succeeds, so do the calls with
  \<open>modes = [A]\<close> and \<open>modes = [B]\<close> (same store, spin, eps, duration, dt), on the same
  time grid, and the strain of the pair is the elementwise sum of the two single-mode
  strains. The modes enter by addition only; nothing couples them.
\<close>

theorem generate_waveform_superposition:
  assumes "generate_waveform qnm_data mass spin eps [A, B] duration dt = Inr (t, h)"
  shows "\<exists>hA hB. generate_waveform qnm_data mass spin eps [A] duration dt = Inr (t, hA)
           \<and> generate_waveform qnm_data mass spin eps [B] duration dt = Inr (t, hB)
           \<and> length hA = length t \<and> length hB = length t
           \<and> h = map2 (+) hA hB"
proof -
  obtain lA nA lB nB where A: "A = (lA, nA)" and B: "B = (lB, nB)"
    by (cases A, cases B)
  from assms have grid: "np_arange 0 duration dt = Inr t"
    and loop: "modes_loop qnm_data spin eps t [A, B] (replicate (length t) 0) = Inr h"
    by (simp_all add: generate_waveform_Inr)
  from loop A B obtain omegaA omegaB where
    fA: "get_frequency qnm_data spin lA nA eps = Inr omegaA"
    and fB: "get_frequency qnm_data spin lB nB eps = Inr omegaB"
    and h: "h = map2 (+) (map2 (+) (replicate (length t) 0) (h_mode omegaA t)) (h_mode omegaB t)"
    by (auto split: sum.splits)
  have "generate_waveform qnm_data mass spin eps [A] duration dt = Inr (t, h_mode omegaA t)"
    using grid fA A by (simp add: generate_waveform_single)
  moreover have "generate_waveform qnm_data mass spin eps [B] duration dt = Inr (t, h_mode omegaB t)"
    using grid fB B by (simp add: generate_waveform_single)
  moreover have "h = map2 (+) (h_mode omegaA t) (h_mode omegaB t)"
    using h by (simp add: map2_add_zeros length_h_mode)
  ultimately show ?thesis
    by (intro exI [of _ "h_mode omegaA t"] exI [of _ "h_mode omegaB t"])
      (simp add: length_h_mode)
qed

theorem generate_waveform_superposition_witness:
  "\<exists>hA hB. generate_waveform table_two_modes 1 0 0 [(2, 0)] 2 1 = Inr ([0, 1], hA)
         \<and> generate_waveform table_two_modes 1 0 0 [(3, 0)] 2 1 = Inr ([0, 1], hB)
         \<and> length hA = length [0 :: real, 1] \<and> length hB = length [0 :: real, 1]
         \<and> [2, exp (- (1 / 10)) * cos (1 / 2) + exp (- (1 / 5)) * cos (4 / 5)] = map2 (+) hA hB"
proof -
  have run: "generate_waveform table_two_modes 1 0 0 [(2, 0), (3, 0)] 2 1 =
     Inr ([0, 1], [2, exp (- (1 / 10)) * cos (1 / 2) + exp (- (1 / 5)) * cos (4 / 5)])"
    by (simp add: generate_waveform_def np_arange_two_points frequency_2_0_at_rest frequency_3_0_at_rest h_mode_def)
  from generate_waveform_superposition [OF run] show ?thesis .
qed

text \<open>The converse: two single-mode runs that succeed add up to the run on the pair.\<close>

lemma single_runs_superpose:
  assumes "generate_waveform qnm_data mass spin eps [A] duration dt = Inr (tA, hA)"
    and "generate_waveform qnm_data mass spin eps [B] duration dt = Inr (tB, hB)"
  shows "tA = tB
     \<and> generate_waveform qnm_data mass spin eps [A, B] duration dt = Inr (tA, map2 (+) hA hB)"
proof -
  obtain lA nA lB nB where A: "A = (lA, nA)" and B: "B = (lB, nB)"
    by (cases A, cases B)
  from assms A B obtain omegaA omegaB where
    "np_arange 0 duration dt = Inr tA" "np_arange 0 duration dt = Inr tB"
    "get_frequency qnm_data spin lA nA eps = Inr omegaA" "hA = h_mode omegaA tA"
    "get_frequency qnm_data spin lB nB eps = Inr omegaB" "hB = h_mode omegaB tB"
    by (auto simp: generate_waveform_single)
  then show ?thesis using A B
    by (simp add: generate_waveform_Inr map2_add_zeros length_h_mode)
qed



text \<open>
  C8. Synthesis is all-or-nothing. The result is either a failure or a complete pair of
  time and strain sequences, never a partial strain. If the lookup of any requested mode
  fails, the synthesis fails. The failure it raises is the one of the lookup that failed:
  the modes are looked up in order after the time grid is built (numpy rejects \<open>dt = 0\<close>
  before any lookup runs), so this is the failure of the first requested mode whose lookup
  fails. A synthesis that succeeds has found every requested mode; and when every lookup
  succeeds and \<open>dt\<close> is not zero, the synthesis succeeds.
\<close>

theorem generate_waveform_all_or_nothing:
  "((\<exists>m \<in> set modes. \<exists>err. get_frequency qnm_data spin (fst m) (snd m) eps = Inl err)
      \<longrightarrow> (\<exists>err. generate_waveform qnm_data mass spin eps modes duration dt = Inl err))
   \<and> (dt \<noteq> 0 \<and> k < length modes
        \<and> get_frequency qnm_data spin (fst (modes ! k)) (snd (modes ! k)) eps = Inl err
        \<and> (\<forall>j < k. \<exists>omega.
              get_frequency qnm_data spin (fst (modes ! j)) (snd (modes ! j)) eps = Inr omega)
      \<longrightarrow> generate_waveform qnm_data mass spin eps modes duration dt = Inl err)
   \<and> (generate_waveform qnm_data mass spin eps modes duration dt = Inr r
      \<longrightarrow> (\<forall>m \<in> set modes. \<exists>omega. get_frequency qnm_data spin (fst m) (snd m) eps = Inr omega))
   \<and> (dt \<noteq> 0
        \<and> (\<forall>m \<in> set modes. \<exists>omega. get_frequency qnm_data spin (fst m) (snd m) eps = Inr omega)
      \<longrightarrow> (\<exists>t h. generate_waveform qnm_data mass spin eps modes duration dt = Inr (t, h)))"
proof (intro conjI impI)
  assume failing: "\<exists>m \<in> set modes. \<exists>err. get_frequency qnm_data spin (fst m) (snd m) eps = Inl err"
  show "\<exists>err. generate_waveform qnm_data mass spin eps modes duration dt = Inl err"
  proof (cases "np_arange 0 duration dt")
    case (Inl e)
    then show ?thesis by (simp add: generate_waveform_def)
  next
    case (Inr t)
    from modes_loop_some_failure [OF failing] obtain err where
      "modes_loop qnm_data spin eps t modes (replicate (length t) 0) = Inl err"
      by blast
    with Inr show ?thesis by (simp add: generate_waveform_def)
  qed
next
  assume a: "dt \<noteq> 0 \<and> k < length modes
        \<and> get_frequency qnm_data spin (fst (modes ! k)) (snd (modes ! k)) eps = Inl err
        \<and> (\<forall>j < k. \<exists>omega.
              get_frequency qnm_data spin (fst (modes ! j)) (snd (modes ! j)) eps = Inr omega)"
  then have "modes_loop qnm_data spin eps t modes h0 = Inl err" for t h0
    by (intro modes_loop_first_failure [of k]) simp_all
  with a show "generate_waveform qnm_data mass spin eps modes duration dt = Inl err"
    by (simp add: generate_waveform_grid_ok)
next
  assume "generate_waveform qnm_data mass spin eps modes duration dt = Inr r"
  then obtain t h where "modes_loop qnm_data spin eps t modes (replicate (length t) 0) = Inr h"
    by (cases r) (auto simp: generate_waveform_Inr)
  then show "\<forall>m \<in> set modes. \<exists>omega. get_frequency qnm_data spin (fst m) (snd m) eps = Inr omega"
    by (rule modes_loop_Inr_found)
next
  assume a: "dt \<noteq> 0
        \<and> (\<forall>m \<in> set modes. \<exists>omega. get_frequency qnm_data spin (fst m) (snd m) eps = Inr omega)"
  then have "\<exists>h. modes_loop qnm_data spin eps t modes h0 = Inr h" for t h0
    by (intro modes_loop_all_found) simp
  then obtain h where "modes_loop qnm_data spin eps (map (\<lambda>i. real i * dt) [0 ..< nat \<lceil>duration / dt\<rceil>])
                   modes (replicate (nat \<lceil>duration / dt\<rceil>) 0) = Inr h"
    by blast
  with a show "\<exists>t h. generate_waveform qnm_data mass spin eps modes duration dt = Inr (t, h)"
    by (simp add: generate_waveform_grid_ok)
qed

theorem generate_waveform_all_or_nothing_witness:
  "generate_waveform table_two_modes 1 0 0 [(2, 0), (5, 0), (3, 0)] 2 1 = Inl ModeNotAvailable
   \<and> generate_waveform table_two_modes 1 (3 / 2) 0 [(3, 0), (2, 0)] 2 1
       = Inl (SpinOutOfRange (3 / 2) 0 0 (3, 0))
   \<and> (\<exists>omega. get_frequency table_two_modes 0 2 0 0 = Inr omega)
   \<and> (\<exists>omega. get_frequency table_two_modes 0 3 0 0 = Inr omega)
   \<and> (\<exists>t h. generate_waveform table_two_modes 1 0 0 [(2, 0), (3, 0)] 2 1 = Inr (t, h))"
proof -
  let ?unknown = "[(2 :: int, 0 :: int), (5, 0), (3, 0)]"
  let ?out = "[(3 :: int, 0 :: int), (2, 0)]"
  let ?good = "[(2 :: int, 0 :: int), (3, 0)]"
  let ?range_error = "SpinOutOfRange (3 / 2) 0 0 (3, 0)"
  let ?strain = "[2 :: real, exp (- (1 / 10)) * cos (1 / 2) + exp (- (1 / 5)) * cos (4 / 5)]"
  have frequency_5_0: "get_frequency table_two_modes 0 5 0 0 = Inl ModeNotAvailable"
    by (simp add: get_frequency_def table_two_modes_def)
  have frequency_3_0_out: "get_frequency table_two_modes (3 / 2) 3 0 0 = Inl ?range_error"
    by (simp add: get_frequency_def py_pow_zero interpolate_entry_def table_two_modes_def entry_l3_def
        py_index_def)
  have unknown: "(1 :: real) \<noteq> 0 \<and> 1 < length ?unknown
      \<and> get_frequency table_two_modes 0 (fst (?unknown ! 1)) (snd (?unknown ! 1)) 0
            = Inl ModeNotAvailable
      \<and> (\<forall>j < 1. \<exists>omega.
            get_frequency table_two_modes 0 (fst (?unknown ! j)) (snd (?unknown ! j)) 0 = Inr omega)"
    by (simp add: frequency_5_0 frequency_2_0_at_rest)
  have out: "(1 :: real) \<noteq> 0 \<and> 0 < length ?out
      \<and> get_frequency table_two_modes (3 / 2) (fst (?out ! 0)) (snd (?out ! 0)) 0 = Inl ?range_error
      \<and> (\<forall>j < 0. \<exists>omega.
            get_frequency table_two_modes (3 / 2) (fst (?out ! j)) (snd (?out ! j)) 0 = Inr omega)"
    by (simp add: frequency_3_0_out)
  have run: "generate_waveform table_two_modes 1 0 0 ?good 2 1 = Inr ([0, 1], ?strain)"
    by (simp add: generate_waveform_def np_arange_two_points frequency_2_0_at_rest frequency_3_0_at_rest h_mode_def)
  have found: "(1 :: real) \<noteq> 0
      \<and> (\<forall>m \<in> set ?good. \<exists>omega. get_frequency table_two_modes 0 (fst m) (snd m) 0 = Inr omega)"
    by (simp add: frequency_2_0_at_rest frequency_3_0_at_rest)
  note fail1 = generate_waveform_all_or_nothing [of ?unknown table_two_modes 0 0 1 2 1 1 ModeNotAvailable,
      THEN conjunct2, THEN conjunct1, THEN mp, OF unknown]
  note fail2 = generate_waveform_all_or_nothing [of ?out table_two_modes "3 / 2" 0 1 2 1 0 ?range_error,
      THEN conjunct2, THEN conjunct1, THEN mp, OF out]
  note only = generate_waveform_all_or_nothing [of ?good table_two_modes 0 0 1 2 1 _ _ "([0, 1], ?strain)",
      THEN conjunct2, THEN conjunct2, THEN conjunct1, THEN mp, OF run]
  note ok = generate_waveform_all_or_nothing [of ?good table_two_modes 0 0 1 2 1,
      THEN conjunct2, THEN conjunct2, THEN conjunct2, THEN mp, OF found]
  from only have both: "(\<exists>omega. get_frequency table_two_modes 0 2 0 0 = Inr omega)
      \<and> (\<exists>omega. get_frequency table_two_modes 0 3 0 0 = Inr omega)"
    by simp
  from fail1 fail2 both ok show ?thesis by (intro conjI) (elim conjE, assumption)+
qed

text \<open>
  C9. The result of \<open>generate_waveform\<close> does not depend on the mass: for any two masses
  and the same store, spin, hair fraction, modes, duration and step, the call returns the
  same time and strain sequences, or fails in the same way. No rescaling by the mass is
  applied.
\<close>

theorem generate_waveform_mass_independent:
  "generate_waveform qnm_data m1 spin eps modes duration dt =
   generate_waveform qnm_data m2 spin eps modes duration dt"
  by (simp add: generate_waveform_def)

end
